theory Spec2Isabelle
  imports Complex_Main "HOL-Library.Monad_Syntax"
begin

section \<open>PulseLab: error budgets for transmon single-qubit gates\<close>

text \<open>
  A shallow embedding of \<^verbatim>\<open>physics.ts\<close> (the pure error-budget functions) and of the
  two callers in \<^verbatim>\<open>index.ts\<close>: \<^verbatim>\<open>executeTool\<close> and the \<^verbatim>\<open>/api/error-budget\<close>
  branch of the worker's \<^verbatim>\<open>fetch\<close> handler.

  A TypeScript \<^verbatim>\<open>number\<close> is modelled as a \<^typ>\<open>real\<close>: arithmetic is exact, and
  \<^verbatim>\<open>Math.PI\<close> is \<^term>\<open>pi\<close>. In HOL \<open>x / 0 = 0\<close>, in JavaScript it is an infinity or
  NaN, so the value of a quotient is stated only where its divisor is not zero; what is
  stated for every input is the order of the branches, which does not depend on the
  values. Where a property depends on the rounding of the doubles,
  \<^verbatim>\<open>computeDecoherenceFloor\<close> is also given with every operation rounded to binary64.
\<close>

subsection \<open>Data model\<close>

record HardwareParams =
  alpha_mhz :: real
  t1_us :: real
  t2_us :: real
  gate_time_ns :: real

record DecoherenceFloor =
  t1_contribution :: real
  t2_contribution :: real
  total_floor :: real

record EstimatedInfidelity =
  gaussian :: real
  drag :: real
  grape :: real

text \<open>The string-literal union \<^verbatim>\<open>"drag_sufficient" | "grape_needed" | "short_gate_regime"\<close>.\<close>

datatype regime = drag_sufficient | grape_needed | short_gate_regime

fun regime_string :: "regime \<Rightarrow> string" where
  "regime_string drag_sufficient = ''drag_sufficient''"
| "regime_string grape_needed = ''grape_needed''"
| "regime_string short_gate_regime = ''short_gate_regime''"

text \<open>
  A JavaScript string built by a template literal is a list of pieces: literal text, and
  numbers together with the conversion the source applies to them (the default
  conversion of \<^verbatim>\<open>${x}\<close>, \<^verbatim>\<open>x.toExponential(d)\<close>, \<^verbatim>\<open>x.toFixed(d)\<close>). The digits a
  conversion prints are not modelled.
\<close>

datatype piece = Lit string | Num real | Exponential real nat | Fixed real nat

type_synonym jstring = "piece list"

record ErrorBudget =
  params :: HardwareParams
  decoherence_floor :: DecoherenceFloor
  estimated_infidelity :: EstimatedInfidelity
  regime :: regime
  recommendation :: jstring
  t2_over_t_ratio :: real
  drag_beta :: real

record RobustnessEstimate =
  method_name :: string
  detuning_min_fidelity :: real
  amplitude_min_fidelity :: real
  detuning_robust :: bool
  amplitude_robust :: bool

subsection \<open>physics.ts\<close>

definition computeDecoherenceFloor :: "real \<Rightarrow> real \<Rightarrow> real \<Rightarrow> DecoherenceFloor" where
  "computeDecoherenceFloor gate_time t1 t2 =
     (let t_ns = gate_time;
          t1_ns = t1 * 1000;
          t2_ns = t2 * 1000;
          eps_t1 = t_ns / (2 * t1_ns);
          eps_t2 = t_ns / t2_ns - t_ns / (2 * t1_ns);
          eps_phi = max 0 eps_t2
      in \<lparr>t1_contribution = eps_t1, t2_contribution = eps_phi,
          total_floor = eps_t1 + eps_phi\<rparr>)"

definition estimateDragCoherentError :: "real \<Rightarrow> real \<Rightarrow> real" where
  "estimateDragCoherentError gate_time alpha =
     (let abs_alpha = \<bar>alpha\<bar>;
          ref_error = 4.9 / 10 ^ 4;
          ref_gate = 20;
          ref_alpha = 200;
          ratio = (ref_gate / gate_time) ^ 4 * (ref_alpha / abs_alpha) ^ 2
      in ref_error * ratio)"

definition estimateGaussianCoherentError :: "real \<Rightarrow> real \<Rightarrow> real" where
  "estimateGaussianCoherentError gate_time alpha =
     (let abs_alpha = \<bar>alpha\<bar>;
          ref_error = 2.8 / 10 ^ 2;
          ref_gate = 20;
          ref_alpha = 200;
          ratio = (ref_gate / gate_time) ^ 2 * (ref_alpha / abs_alpha) ^ 2
      in ref_error * ratio)"

definition computeDragBeta :: "real \<Rightarrow> real" where
  "computeDragBeta alpha =
     (let alpha_rad_per_ns = alpha * 2 * pi / 1000
      in - 1 / (2 * alpha_rad_per_ns))"

text \<open>The three recommendation texts of \<^verbatim>\<open>computeErrorBudget\<close>, one per branch.\<close>

definition recommendation_short_gate :: "real \<Rightarrow> jstring" where
  "recommendation_short_gate gate_time =
     [Lit ''At '', Num gate_time,
      Lit ''ns gate time, DRAG's perturbative correction breaks down. '',
      Lit ''GRAPE (or another numerical method) is needed for high fidelity. '',
      Lit ''The first-order DRAG correction cannot suppress higher-order leakage '',
      Lit ''pathways that become significant when Omega/|alpha| is large.'']"

definition recommendation_drag_sufficient ::
    "real \<Rightarrow> DecoherenceFloor \<Rightarrow> real \<Rightarrow> real \<Rightarrow> real \<Rightarrow> jstring" where
  "recommendation_drag_sufficient drag_coherent floor' drag_total grape_total t2 =
     [Lit ''Properly calibrated DRAG is sufficient here. DRAG coherent error '',
      Lit ''('', Exponential drag_coherent 2, Lit '') is well below the decoherence floor '',
      Lit ''('', Exponential (total_floor floor') 2, Lit ''). GRAPE would eliminate the residual '',
      Lit ''coherent error, but the improvement is marginal: '',
      Fixed (drag_total / grape_total) 2,
      Lit ''x above GRAPE's decoherence-limited performance. '',
      Lit ''Your highest-leverage improvement is increasing T2 '',
      Lit ''(currently '', Num t2, Lit '' us, contributing '',
      Exponential (t2_contribution floor') 2, Lit '' to infidelity).'']"

definition recommendation_grape_needed :: "real \<Rightarrow> DecoherenceFloor \<Rightarrow> jstring" where
  "recommendation_grape_needed drag_coherent floor' =
     [Lit ''DRAG coherent error ('', Exponential drag_coherent 2,
      Lit '') is comparable to or exceeds '',
      Lit ''the decoherence floor ('', Exponential (total_floor floor') 2,
      Lit ''). GRAPE can provide meaningful '',
      Lit ''improvement by eliminating coherent error entirely. '',
      Lit ''Consider numerical optimization for this parameter regime.'']"

definition computeErrorBudget :: "HardwareParams \<Rightarrow> ErrorBudget" where
  "computeErrorBudget p =
     (let floor' = computeDecoherenceFloor (gate_time_ns p) (t1_us p) (t2_us p);
          drag_coherent = estimateDragCoherentError (gate_time_ns p) (alpha_mhz p);
          gaussian_coherent = estimateGaussianCoherentError (gate_time_ns p) (alpha_mhz p);
          grape_total = total_floor floor';
          drag_total = drag_coherent + total_floor floor';
          gaussian_total = gaussian_coherent + total_floor floor';
          t2_over_t = (t2_us p * 1000) / gate_time_ns p;
          beta = computeDragBeta (alpha_mhz p);
          (regime_v, recommendation_v) =
            (if gate_time_ns p < 15 then
               (short_gate_regime, recommendation_short_gate (gate_time_ns p))
             else if drag_coherent < total_floor floor' * 0.5 then
               (drag_sufficient,
                recommendation_drag_sufficient drag_coherent floor' drag_total grape_total (t2_us p))
             else
               (grape_needed, recommendation_grape_needed drag_coherent floor'))
      in \<lparr>params = p,
          decoherence_floor = floor',
          estimated_infidelity =
            \<lparr>gaussian = gaussian_total, drag = drag_total, grape = grape_total\<rparr>,
          regime = regime_v,
          recommendation = recommendation_v,
          t2_over_t_ratio = t2_over_t,
          drag_beta = beta\<rparr>)"

definition estimateRobustness :: "HardwareParams \<Rightarrow> RobustnessEstimate list" where
  "estimateRobustness p =
     (let t = gate_time_ns p;
          gate_factor = min 1 (20 / t)
      in [\<lparr>method_name = ''Gaussian'',
           detuning_min_fidelity = 0.937 * (1 - 0.03 * gate_factor),
           amplitude_min_fidelity = 0.965 * (1 - 0.02 * gate_factor),
           detuning_robust = False,
           amplitude_robust = False\<rparr>,
          \<lparr>method_name = ''DRAG'',
           detuning_min_fidelity = 0.990 * (1 - 0.01 * gate_factor),
           amplitude_min_fidelity = 0.990 * (1 - 0.01 * gate_factor),
           detuning_robust = True,
           amplitude_robust = True\<rparr>,
          \<lparr>method_name = ''GRAPE'',
           detuning_min_fidelity = 0.931 * (1 - 0.04 * gate_factor),
           amplitude_min_fidelity = 0.994 * (1 - 0.005 * gate_factor),
           detuning_robust = False,
           amplitude_robust = True\<rparr>])"

subsection \<open>physics.ts in double precision\<close>










text \<open>\<^verbatim>\<open>lines.join("\n")\<close>: the lines with a newline between each two.\<close>

fun join_lines :: "jstring list \<Rightarrow> jstring" where
  "join_lines [] = []"
| "join_lines [l] = l"
| "join_lines (l # ls) = l @ [Lit [CHR 0x0A]] @ join_lines ls"

definition formatErrorBudget :: "ErrorBudget \<Rightarrow> jstring" where
  "formatErrorBudget budget =
     (let p = params budget;
          lines =
            [[Lit ''=== Error Budget Analysis ===''],
             [Lit ''Hardware: alpha/2pi = '', Num (alpha_mhz p), Lit '' MHz, T1 = '',
              Num (t1_us p), Lit '' us, T2 = '', Num (t2_us p), Lit '' us''],
             [Lit ''Gate time: '', Num (gate_time_ns p), Lit '' ns''],
             [Lit ''DRAG beta: '', Fixed (drag_beta budget) 4, Lit '' ns''],
             [Lit ''T2/T ratio: '', Fixed (t2_over_t_ratio budget) 0],
             [],
             [Lit ''Decoherence floor:''],
             [Lit ''  T1 contribution:  '',
              Exponential (t1_contribution (decoherence_floor budget)) 2],
             [Lit ''  T2 contribution:  '',
              Exponential (t2_contribution (decoherence_floor budget)) 2],
             [Lit ''  Total floor:      '',
              Exponential (total_floor (decoherence_floor budget)) 2],
             [],
             [Lit ''Estimated total infidelity (1 - F):''],
             [Lit ''  Gaussian: '', Exponential (gaussian (estimated_infidelity budget)) 2],
             [Lit ''  DRAG:     '', Exponential (drag (estimated_infidelity budget)) 2],
             [Lit ''  GRAPE:    '', Exponential (grape (estimated_infidelity budget)) 2],
             [],
             [Lit ''Regime: '', Lit (regime_string (regime budget))],
             [],
             Lit ''Recommendation: '' # recommendation budget]
      in join_lines lines)"

subsection \<open>index.ts: the tool-execution layer\<close>

datatype role = user | assistant | system | tool

record ToolCall =
  call_id :: string
  function_name :: string
  function_arguments :: string

record ChatMessage =
  role :: role
  content :: string
  tool_calls :: "ToolCall list option"
  tool_call_id :: "string option"
  message_name :: "string option"

record SavedConfig =
  config_name :: string
  config_params :: HardwareParams
  created_at :: string

record AgentState =
  messages :: "ChatMessage list"
  configs :: "SavedConfig list"

definition initialState :: AgentState where
  "initialState = \<lparr>messages = [], configs = []\<rparr>"

text \<open>
  The \<^verbatim>\<open>args\<close> object as \<^verbatim>\<open>executeTool\<close> reads it: each key after its cast
  (\<^verbatim>\<open>args.alpha_mhz as number\<close>, \<^verbatim>\<open>args.name as string\<close>). A key that is absent or
  not a number is outside the model.
\<close>

record ToolArgs =
  arg_name :: string
  arg_alpha_mhz :: real
  arg_t1_us :: real
  arg_t2_us :: real
  arg_gate_time_ns :: real

definition args_params :: "ToolArgs \<Rightarrow> HardwareParams" where
  "args_params args =
     \<lparr>alpha_mhz = arg_alpha_mhz args, t1_us = arg_t1_us args,
      t2_us = arg_t2_us args, gate_time_ns = arg_gate_time_ns args\<rparr>"

definition robust_label :: "bool \<Rightarrow> string" where
  "robust_label b = (if b then ''(robust)'' else ''(sensitive)'')"

definition robustness_lines :: "RobustnessEstimate \<Rightarrow> jstring list" where
  "robustness_lines r =
     [[Lit (method_name r), Lit '':''],
      [Lit ''  Detuning min fidelity:  '', Fixed (detuning_min_fidelity r) 4, Lit '' '',
       Lit (robust_label (detuning_robust r))],
      [Lit ''  Amplitude min fidelity: '', Fixed (amplitude_min_fidelity r) 4, Lit '' '',
       Lit (robust_label (amplitude_robust r))],
      []]"

definition dquote :: string where
  "dquote = [CHR 0x22]"

definition config_text :: "SavedConfig \<Rightarrow> jstring" where
  "config_text c =
     [Lit ''alpha='', Num (alpha_mhz (config_params c)), Lit '' MHz, T1='',
      Num (t1_us (config_params c)), Lit '' us, T2='', Num (t2_us (config_params c)),
      Lit '' us, T_gate='', Num (gate_time_ns (config_params c)), Lit '' ns'']"

text \<open>The three strings the input validation of \<^verbatim>\<open>compute_error_budget\<close> returns.\<close>

definition t2_exceeds_warning :: "HardwareParams \<Rightarrow> jstring" where
  "t2_exceeds_warning p =
     [Lit ''Warning: T2 ('', Num (t2_us p), Lit '' us) exceeds 2*T1 ('', Num (2 * t1_us p),
      Lit '' us). This is physically impossible; T2 <= 2*T1 always. Please check your values.'']"

definition positive_alpha_warning :: "HardwareParams \<Rightarrow> jstring" where
  "positive_alpha_warning p =
     [Lit ''Warning: Positive anharmonicity ('', Num (alpha_mhz p),
      Lit '' MHz) is unusual for transmons. Transmons typically have alpha < 0 (e.g., -200 MHz). Did you mean '',
      Num (- \<bar>alpha_mhz p\<bar>), Lit '' MHz?'']"

definition time_parameters_error :: jstring where
  "time_parameters_error = [Lit ''Error: All time parameters must be positive.'']"

text \<open>
  \<^verbatim>\<open>executeTool(toolName, args, state)\<close> returns a string and, for \<^verbatim>\<open>save_config\<close>,
  pushes onto \<^verbatim>\<open>state.configs\<close>: the model returns the string and the state.
  \<^verbatim>\<open>new Date().toISOString()\<close> is the parameter \<open>now\<close>; the plus-minus sign of the
  robustness heading is its two UTF-8 bytes.
\<close>

definition executeTool ::
    "string \<Rightarrow> ToolArgs \<Rightarrow> AgentState \<Rightarrow> string \<Rightarrow> jstring \<times> AgentState" where
  "executeTool toolName args state now =
     (if toolName = ''compute_error_budget'' then
        (let p = args_params args in
         if t2_us p > 2 * t1_us p then (t2_exceeds_warning p, state)
         else if alpha_mhz p > 0 then (positive_alpha_warning p, state)
         else if gate_time_ns p \<le> 0 \<or> t1_us p \<le> 0 \<or> t2_us p \<le> 0 then
           (time_parameters_error, state)
         else
           (let budget = computeErrorBudget p in (formatErrorBudget budget, state)))
      else if toolName = ''estimate_robustness'' then
        (let p = args_params args;
             robustness = estimateRobustness p;
             lines =
               [[Lit ''=== Robustness Estimates ('', Lit [CHR 0xC2, CHR 0xB1],
                 Lit ''5 MHz detuning, '', Lit [CHR 0xC2, CHR 0xB1], Lit ''5% amplitude) ===''],
                [Lit ''Gate time: '', Num (gate_time_ns p), Lit '' ns''],
                []]
               @ concat (map robustness_lines robustness)
               @ [[Lit ''Note: DRAG's superior detuning robustness is a key finding. GRAPE's''],
                  [Lit ''richer spectral content makes it more sensitive to frequency shifts.'']]
         in (join_lines lines, state))
      else if toolName = ''save_config'' then
        (let config = \<lparr>config_name = arg_name args, config_params = args_params args,
                        created_at = now\<rparr>
         in ([Lit (''Saved configuration '' @ dquote), Lit (config_name config),
              Lit (dquote @ '': '')]
             @ config_text config,
             state\<lparr>configs := configs state @ [config]\<rparr>))
      else if toolName = ''list_configs'' then
        (if length (configs state) = 0 then
           ([Lit ''No saved configurations yet. Use save_config to store hardware parameters.''],
            state)
         else
           (join_lines
              ([Lit ''Saved configurations:'']
               # map (\<lambda>c. [Lit (''  - '' @ dquote), Lit (config_name c), Lit (dquote @ '': '')]
                          @ config_text c)
                   (configs state)),
            state))
      else ([Lit ''Unknown tool: '', Lit toolName], state))"

subsection \<open>index.ts: the REST endpoint\<close>

text \<open>
  The worker's \<^verbatim>\<open>fetch\<close>: \<^verbatim>\<open>await request.json()\<close> either throws (the message is
  \<open>Inl\<close>) or yields the body, cast to \<^verbatim>\<open>HardwareParams\<close>; the result of
  \<^verbatim>\<open>routeAgentRequest\<close>, a function of the Agents SDK, is a parameter.
\<close>

datatype http_body = Json_budget ErrorBudget | Json_error string | Plain string

record Response =
  status :: nat
  headers :: "(string \<times> string) list"
  body :: http_body

definition fetch ::
    "string \<Rightarrow> string \<Rightarrow> string + HardwareParams \<Rightarrow> Response option \<Rightarrow> Response" where
  "fetch pathname http_method request_json agentResponse =
     (if pathname = ''/api/error-budget'' \<and> http_method = ''POST'' then
        (case request_json of
           Inr body' \<Rightarrow>
             (let budget = computeErrorBudget body'
              in \<lparr>status = 200, headers = [(''Content-Type'', ''application/json'')],
                  body = Json_budget budget\<rparr>)
         | Inl err \<Rightarrow>
             \<lparr>status = 400, headers = [(''Content-Type'', ''application/json'')],
              body = Json_error err\<rparr>)
      else
        (case agentResponse of
           Some r \<Rightarrow> r
         | None \<Rightarrow> \<lparr>status = 404, headers = [], body = Plain ''Not found''\<rparr>))"

text \<open>
  Rendering a \<^typ>\<open>jstring\<close> to characters, for any three number conversions.
\<close>

fun render_piece ::
    "(real \<Rightarrow> string) \<Rightarrow> (real \<Rightarrow> nat \<Rightarrow> string) \<Rightarrow> (real \<Rightarrow> nat \<Rightarrow> string) \<Rightarrow> piece \<Rightarrow> string" where
  "render_piece str ex fx (Lit s) = s"
| "render_piece str ex fx (Num x) = str x"
| "render_piece str ex fx (Exponential x d) = ex x d"
| "render_piece str ex fx (Fixed x d) = fx x d"

definition render ::
    "(real \<Rightarrow> string) \<Rightarrow> (real \<Rightarrow> nat \<Rightarrow> string) \<Rightarrow> (real \<Rightarrow> nat \<Rightarrow> string) \<Rightarrow> jstring \<Rightarrow> string" where
  "render str ex fx s = concat (map (render_piece str ex fx) s)"

subsection \<open>Reference inputs\<close>

text \<open>
  The hardware the paper and the system prompt quote (IQM Garnet): anharmonicity
  \<open>-200\<close> MHz, \<open>T1 = 37\<close> us, \<open>T2 = 9.6\<close> us, a gate of 20 ns.
\<close>

definition iqm_garnet :: HardwareParams where
  "iqm_garnet = \<lparr>alpha_mhz = - 200, t1_us = 37, t2_us = 9.6, gate_time_ns = 20\<rparr>"

text \<open>
  Tool arguments whose only fault is one time parameter: a gate time of 0, and a
  \<open>T2\<close> of 0. Both pass the first two checks of the validation.
\<close>

definition zero_gate_args :: ToolArgs where
  "zero_gate_args =
     \<lparr>arg_name = [], arg_alpha_mhz = - 200, arg_t1_us = 37, arg_t2_us = 9.6,
      arg_gate_time_ns = 0\<rparr>"

definition zero_t2_args :: ToolArgs where
  "zero_t2_args =
     \<lparr>arg_name = [], arg_alpha_mhz = - 200, arg_t1_us = 37, arg_t2_us = 0,
      arg_gate_time_ns = 20\<rparr>"

text \<open>An input that is unphysical twice: \<open>T2 > 2 * T1\<close> and a positive anharmonicity.\<close>

definition unphysical_args :: ToolArgs where
  "unphysical_args =
     \<lparr>arg_name = [], arg_alpha_mhz = 200, arg_t1_us = 10, arg_t2_us = 50,
      arg_gate_time_ns = 20\<rparr>"

section \<open>Properties\<close>

subsection \<open>Auxiliary facts\<close>

text \<open>The floor is the larger of the relaxation term and the \<open>T2\<close> term.\<close>

lemma total_floor_max:
  "total_floor (computeDecoherenceFloor g t1 t2)
     = max (g / (2 * (t1 * 1000))) (g / (t2 * 1000))"
  by (simp add: computeDecoherenceFloor_def Let_def max_def)

lemma estimateDragCoherentError_nonneg: "0 \<le> estimateDragCoherentError g a"
  by (simp add: estimateDragCoherentError_def Let_def)

lemma estimateGaussianCoherentError_nonneg: "0 \<le> estimateGaussianCoherentError g a"
  by (simp add: estimateGaussianCoherentError_def Let_def)

text \<open>The fields of a budget that do not depend on the regime branch.\<close>

lemma budget_fields:
  "decoherence_floor (computeErrorBudget p)
     = computeDecoherenceFloor (gate_time_ns p) (t1_us p) (t2_us p)"
  "estimated_infidelity (computeErrorBudget p)
     = \<lparr>gaussian = estimateGaussianCoherentError (gate_time_ns p) (alpha_mhz p)
                    + total_floor (computeDecoherenceFloor (gate_time_ns p) (t1_us p) (t2_us p)),
        drag = estimateDragCoherentError (gate_time_ns p) (alpha_mhz p)
                 + total_floor (computeDecoherenceFloor (gate_time_ns p) (t1_us p) (t2_us p)),
        grape = total_floor (computeDecoherenceFloor (gate_time_ns p) (t1_us p) (t2_us p))\<rparr>"
  "drag_beta (computeErrorBudget p) = computeDragBeta (alpha_mhz p)"
  "params (computeErrorBudget p) = p"
  "t2_over_t_ratio (computeErrorBudget p) = t2_us p * 1000 / gate_time_ns p"
  by (simp_all add: computeErrorBudget_def Let_def split: prod.splits)

text \<open>
  Bounds on \<open>pi\<close> from Machin's formula: the arctangent lies between two partial sums
  of its series, since the difference has a derivative of constant sign.
\<close>

lemma arctan_upper5:
  fixes x :: real
  assumes "0 \<le> x"
  shows "arctan x \<le> x - x ^ 3 / 3 + x ^ 5 / 5"
proof -
  let ?f = "\<lambda>u::real. u - u ^ 3 / 3 + u ^ 5 / 5 - arctan u"
  have "?f 0 \<le> ?f x"
  proof (rule DERIV_nonneg_imp_nondecreasing [OF assms])
    fix u :: real
    have pos: "1 + u\<^sup>2 \<noteq> 0"
      by (metis add_nonneg_eq_0_iff zero_le_power2 zero_neq_one zero_le_one)
    have d: "(?f has_real_derivative (1 - u ^ 2 + u ^ 4 - inverse (1 + u\<^sup>2))) (at u)"
      by (auto intro!: derivative_eq_intros)
    have "1 - u ^ 2 + u ^ 4 - inverse (1 + u\<^sup>2) = u ^ 6 / (1 + u\<^sup>2)"
      using pos by (simp add: field_simps)
    moreover have "0 \<le> u ^ 6 / (1 + u\<^sup>2)"
      by (intro divide_nonneg_nonneg) auto
    ultimately show "\<exists>y. (?f has_real_derivative y) (at u) \<and> 0 \<le> y"
      using d by auto
  qed
  then show ?thesis by simp
qed

lemma arctan_lower7:
  fixes x :: real
  assumes "0 \<le> x"
  shows "x - x ^ 3 / 3 + x ^ 5 / 5 - x ^ 7 / 7 \<le> arctan x"
proof -
  let ?f = "\<lambda>u::real. arctan u - (u - u ^ 3 / 3 + u ^ 5 / 5 - u ^ 7 / 7)"
  have "?f 0 \<le> ?f x"
  proof (rule DERIV_nonneg_imp_nondecreasing [OF assms])
    fix u :: real
    have pos: "1 + u\<^sup>2 \<noteq> 0"
      by (metis add_nonneg_eq_0_iff zero_le_power2 zero_neq_one zero_le_one)
    have d: "(?f has_real_derivative (inverse (1 + u\<^sup>2) - (1 - u ^ 2 + u ^ 4 - u ^ 6))) (at u)"
      by (auto intro!: derivative_eq_intros)
    have "inverse (1 + u\<^sup>2) - (1 - u ^ 2 + u ^ 4 - u ^ 6) = u ^ 8 / (1 + u\<^sup>2)"
      using pos by (simp add: field_simps)
    moreover have "0 \<le> u ^ 8 / (1 + u\<^sup>2)"
      by (intro divide_nonneg_nonneg) auto
    ultimately show "\<exists>y. (?f has_real_derivative y) (at u) \<and> 0 \<le> y"
      using d by auto
  qed
  then show ?thesis by simp
qed

lemma pi_bounds: "3.14159 < pi \<and> pi < 3.14163"
proof -
  define l5 :: real where "l5 = 1 / 5 - (1 / 5) ^ 3 / 3 + (1 / 5) ^ 5 / 5 - (1 / 5) ^ 7 / 7"
  define u5 :: real where "u5 = 1 / 5 - (1 / 5) ^ 3 / 3 + (1 / 5) ^ 5 / 5"
  define l239 :: real where
    "l239 = 1 / 239 - (1 / 239) ^ 3 / 3 + (1 / 239) ^ 5 / 5 - (1 / 239) ^ 7 / 7"
  define u239 :: real where "u239 = 1 / 239 - (1 / 239) ^ 3 / 3 + (1 / 239) ^ 5 / 5"
  have m: "pi = 16 * arctan (1 / 5) - 4 * arctan (1 / 239)"
    using machin by simp
  have a5: "l5 \<le> arctan (1 / 5)" "arctan (1 / 5) \<le> u5"
    unfolding l5_def u5_def
    using arctan_lower7 [of "1 / 5"] arctan_upper5 [of "1 / 5"] by simp_all
  have a239: "l239 \<le> arctan (1 / 239)" "arctan (1 / 239) \<le> u239"
    unfolding l239_def u239_def
    using arctan_lower7 [of "1 / 239"] arctan_upper5 [of "1 / 239"] by simp_all
  have n1: "3.14159 < 16 * l5 - 4 * u239"
    unfolding l5_def u239_def by (simp add: power_divide)
  have n2: "16 * u5 - 4 * l239 < 3.14163"
    unfolding u5_def l239_def by (simp add: power_divide)
  have "3.14159 < pi" using m a5(1) a239(2) n1 by linarith
  moreover have "pi < 3.14163" using m a5(2) a239(1) n2 by linarith
  ultimately show ?thesis by simp
qed

text \<open>The budget of the reference input, field by field.\<close>

lemma iqm_garnet_floor:
  "decoherence_floor (computeErrorBudget iqm_garnet)
     = \<lparr>t1_contribution = 1 / 3700, t2_contribution = 1 / 480 - 1 / 3700,
        total_floor = 1 / 480\<rparr>"
  by (simp add: budget_fields iqm_garnet_def computeDecoherenceFloor_def Let_def)

lemma iqm_garnet_drag_beta: "drag_beta (computeErrorBudget iqm_garnet) = 5 / (4 * pi)"
  by (simp add: budget_fields iqm_garnet_def computeDragBeta_def Let_def)

lemma iqm_garnet_drag_coherent:
  "estimateDragCoherentError (gate_time_ns iqm_garnet) (alpha_mhz iqm_garnet) = 4.9 / 10 ^ 4"
  by (simp add: iqm_garnet_def estimateDragCoherentError_def Let_def)

lemma drag_beta_bounds: "0.39788 < 5 / (4 * pi) \<and> 5 / (4 * pi) < 0.39789"
  using pi_bounds by (simp add: field_simps)

text \<open>
  A validation message starts with \<open>W\<close> or \<open>E\<close>, a formatted budget with \<open>=\<close>, whatever
  the number conversions print.
\<close>

lemma render_formatErrorBudget_hd:
  "render str ex fx (formatErrorBudget budget) = CHR ''='' # tl (render str ex fx (formatErrorBudget budget))"
  by (simp add: formatErrorBudget_def render_def Let_def)

lemma render_validation_hd:
  "render str ex fx (t2_exceeds_warning p) = CHR ''W'' # tl (render str ex fx (t2_exceeds_warning p))"
  "render str ex fx (positive_alpha_warning p) = CHR ''W'' # tl (render str ex fx (positive_alpha_warning p))"
  "render str ex fx time_parameters_error = CHR ''E'' # tl (render str ex fx time_parameters_error)"
  by (simp_all add: t2_exceeds_warning_def positive_alpha_warning_def time_parameters_error_def
        render_def)

lemma validation_not_budget:
  "render str ex fx (t2_exceeds_warning p) \<noteq> render str ex fx (formatErrorBudget budget)"
  "render str ex fx (positive_alpha_warning p) \<noteq> render str ex fx (formatErrorBudget budget)"
  "render str ex fx time_parameters_error \<noteq> render str ex fx (formatErrorBudget budget)"
  by (subst render_validation_hd, subst render_formatErrorBudget_hd, simp)+

subsection \<open>Rounding to a double\<close>




















































subsection \<open>Regime classification\<close>

text \<open>
  Claim C1. For every input, \<^verbatim>\<open>computeErrorBudget\<close> classifies by priority, the first
  match winning: a gate shorter than 15 ns is \<^verbatim>\<open>short_gate_regime\<close> (the spec's
  \<open>short_gate\<close>) whatever the other values; otherwise a DRAG coherent error below half
  the total of the decoherence floor, the floor being that of
  \<^verbatim>\<open>computeDecoherenceFloor\<close> at the input's gate time, \<open>T1\<close> and \<open>T2\<close>, is
  \<^verbatim>\<open>drag_sufficient\<close>; otherwise the regime is \<^verbatim>\<open>grape_needed\<close>. The type
  \<^typ>\<open>regime\<close> has no other value.
\<close>

theorem regime_priority:
  "regime (computeErrorBudget p) =
     (if gate_time_ns p < 15 then short_gate_regime
      else if estimateDragCoherentError (gate_time_ns p) (alpha_mhz p)
                < 0.5 * total_floor
                          (computeDecoherenceFloor (gate_time_ns p) (t1_us p) (t2_us p))
           then drag_sufficient
           else grape_needed)
   \<and> decoherence_floor (computeErrorBudget p)
       = computeDecoherenceFloor (gate_time_ns p) (t1_us p) (t2_us p)"
  by (simp add: computeErrorBudget_def Let_def)

subsection \<open>Decoherence floor\<close>

text \<open>
  Claim C2. For positive gate time, \<open>T1\<close> and \<open>T2\<close>, \<^verbatim>\<open>computeDecoherenceFloor\<close>
  multiplies both coherence times by 1000 before dividing; the relaxation term is
  \<open>g / (2 * t1_ns)\<close>, the dephasing term is \<open>max 0 (g / t2_ns - g / (2 * t1_ns))\<close>, which is
  never negative and is 0 at \<open>T2 = 2 * T1\<close>, and the total is their sum.
\<close>

theorem decoherence_floor_formula:
  assumes "0 < g" and "0 < t1" and "0 < t2"
  shows "t1_contribution (computeDecoherenceFloor g t1 t2) = g / (2 * (t1 * 1000))
       \<and> t2_contribution (computeDecoherenceFloor g t1 t2)
           = max 0 (g / (t2 * 1000) - g / (2 * (t1 * 1000)))
       \<and> total_floor (computeDecoherenceFloor g t1 t2)
           = t1_contribution (computeDecoherenceFloor g t1 t2)
             + t2_contribution (computeDecoherenceFloor g t1 t2)
       \<and> 0 \<le> t2_contribution (computeDecoherenceFloor g t1 t2)
       \<and> t2_contribution (computeDecoherenceFloor g t1 (2 * t1)) = 0"
  by (simp add: computeDecoherenceFloor_def Let_def)

theorem decoherence_floor_formula_witness:
  "t1_contribution (computeDecoherenceFloor 20 37 9.6) = 1 / 3700
   \<and> t2_contribution (computeDecoherenceFloor 20 37 9.6) = 1 / 480 - 1 / 3700
   \<and> total_floor (computeDecoherenceFloor 20 37 9.6) = 1 / 480
   \<and> t2_contribution (computeDecoherenceFloor 20 37 74) = 0"
  using decoherence_floor_formula [of 20 37 "9.6"]
  by simp




subsection \<open>Coherent errors and DRAG beta\<close>

text \<open>
  Claim C5. For a positive gate time \<open>g\<close> and a nonzero anharmonicity \<open>a\<close>, the DRAG
  coherent error is \<open>4.9e-4 * (20 / g)^4 * (200 / |a|)^2\<close> and the Gaussian coherent error
  is \<open>2.8e-2 * (20 / g)^2 * (200 / |a|)^2\<close>.
\<close>

theorem coherent_error_scaling:
  assumes "0 < g" and "a \<noteq> 0"
  shows "estimateDragCoherentError g a = 4.9 / 10 ^ 4 * (20 / g) ^ 4 * (200 / \<bar>a\<bar>) ^ 2
       \<and> estimateGaussianCoherentError g a = 2.8 / 10 ^ 2 * (20 / g) ^ 2 * (200 / \<bar>a\<bar>) ^ 2"
  by (simp add: estimateDragCoherentError_def estimateGaussianCoherentError_def Let_def)

theorem coherent_error_scaling_witness:
  "estimateDragCoherentError 20 (- 200) = 4.9 / 10 ^ 4
   \<and> estimateGaussianCoherentError 20 (- 200) = 2.8 / 10 ^ 2
   \<and> estimateDragCoherentError 10 (- 100) = 64 * (4.9 / 10 ^ 4)
   \<and> estimateGaussianCoherentError 10 (- 100) = 16 * (2.8 / 10 ^ 2)"
  using coherent_error_scaling [of 20 "- 200"] coherent_error_scaling [of 10 "- 100"]
  by simp

text \<open>
  Claim C4. For a nonzero anharmonicity, the \<^verbatim>\<open>drag_beta\<close> of a budget is
  \<open>-1 / (2 * alpha_rad_per_ns)\<close> with \<open>alpha_rad_per_ns = alpha_mhz * 2 * pi / 1000\<close>, and
  two inputs with the same anharmonicity have the same \<^verbatim>\<open>drag_beta\<close>, whatever their
  \<open>T1\<close>, \<open>T2\<close> and gate time.
\<close>

theorem drag_beta_anharmonicity_only:
  assumes "alpha_mhz p \<noteq> 0" and "alpha_mhz q = alpha_mhz p"
  shows "drag_beta (computeErrorBudget p) = - 1 / (2 * (alpha_mhz p * 2 * pi / 1000))
       \<and> drag_beta (computeErrorBudget q) = drag_beta (computeErrorBudget p)"
  using assms by (simp add: computeErrorBudget_def computeDragBeta_def Let_def split: prod.splits)

theorem drag_beta_anharmonicity_only_witness:
  "alpha_mhz iqm_garnet \<noteq> 0
   \<and> drag_beta (computeErrorBudget iqm_garnet) = 5 / (4 * pi)
   \<and> drag_beta (computeErrorBudget
         \<lparr>alpha_mhz = - 200, t1_us = 50, t2_us = 30, gate_time_ns = 10\<rparr>)
       = drag_beta (computeErrorBudget iqm_garnet)"
  using drag_beta_anharmonicity_only [of iqm_garnet
      "\<lparr>alpha_mhz = - 200, t1_us = 50, t2_us = 30, gate_time_ns = 10\<rparr>"]
  by (simp add: iqm_garnet_def)

theorem budget_totals_ordering:
  assumes "0 < gate_time_ns p" and "0 < t1_us p" and "0 < t2_us p" and "alpha_mhz p \<noteq> 0"
  shows "grape (estimated_infidelity (computeErrorBudget p))
           = total_floor (decoherence_floor (computeErrorBudget p))
       \<and> drag (estimated_infidelity (computeErrorBudget p))
           = estimateDragCoherentError (gate_time_ns p) (alpha_mhz p)
             + total_floor (decoherence_floor (computeErrorBudget p))
       \<and> gaussian (estimated_infidelity (computeErrorBudget p))
           = estimateGaussianCoherentError (gate_time_ns p) (alpha_mhz p)
             + total_floor (decoherence_floor (computeErrorBudget p))
       \<and> grape (estimated_infidelity (computeErrorBudget p))
           \<le> drag (estimated_infidelity (computeErrorBudget p))
       \<and> grape (estimated_infidelity (computeErrorBudget p))
           \<le> gaussian (estimated_infidelity (computeErrorBudget p))
       \<and> total_floor (decoherence_floor (computeErrorBudget p))
           \<le> gaussian (estimated_infidelity (computeErrorBudget p))
       \<and> total_floor (decoherence_floor (computeErrorBudget p))
           \<le> drag (estimated_infidelity (computeErrorBudget p))
       \<and> total_floor (decoherence_floor (computeErrorBudget p))
           \<le> grape (estimated_infidelity (computeErrorBudget p))"
  by (simp add: budget_fields estimateDragCoherentError_nonneg
        estimateGaussianCoherentError_nonneg)

theorem budget_totals_ordering_witness:
  "grape (estimated_infidelity (computeErrorBudget iqm_garnet)) = 1 / 480
   \<and> drag (estimated_infidelity (computeErrorBudget iqm_garnet)) = 49 / 100000 + 1 / 480
   \<and> gaussian (estimated_infidelity (computeErrorBudget iqm_garnet)) = 28 / 1000 + 1 / 480
   \<and> grape (estimated_infidelity (computeErrorBudget iqm_garnet))
       \<le> drag (estimated_infidelity (computeErrorBudget iqm_garnet))"
  using budget_totals_ordering [of iqm_garnet]
  by (simp add: iqm_garnet_def budget_fields total_floor_max
        estimateDragCoherentError_def estimateGaussianCoherentError_def Let_def)

subsection \<open>Robustness estimates\<close>

text \<open>
  Claim C9. For a positive gate time, \<^verbatim>\<open>estimateRobustness\<close> returns three entries,
  Gaussian, DRAG, GRAPE in this order; each minimum fidelity is
  \<open>reference * (1 - coefficient * gate_factor)\<close> with \<open>gate_factor = min 1 (20 / gate_time_ns)\<close>
  and the fixed table of references and coefficients; the robustness flags are
  constants: Gaussian neither, DRAG both, GRAPE amplitude only.
\<close>

theorem robustness_table:
  assumes "0 < gate_time_ns p"
  shows "length (estimateRobustness p) = 3
       \<and> map method_name (estimateRobustness p) = [''Gaussian'', ''DRAG'', ''GRAPE'']
       \<and> map detuning_min_fidelity (estimateRobustness p)
           = map (\<lambda>(reference, coefficient).
                    reference * (1 - coefficient * min 1 (20 / gate_time_ns p)))
               [(0.937, 0.03), (0.990, 0.01), (0.931, 0.04)]
       \<and> map amplitude_min_fidelity (estimateRobustness p)
           = map (\<lambda>(reference, coefficient).
                    reference * (1 - coefficient * min 1 (20 / gate_time_ns p)))
               [(0.965, 0.02), (0.990, 0.01), (0.994, 0.005)]
       \<and> map detuning_robust (estimateRobustness p) = [False, True, False]
       \<and> map amplitude_robust (estimateRobustness p) = [False, True, True]"
  by (simp add: estimateRobustness_def Let_def)

theorem robustness_table_witness:
  "0 < gate_time_ns (iqm_garnet\<lparr>gate_time_ns := 40\<rparr>)
   \<and> map detuning_min_fidelity (estimateRobustness (iqm_garnet\<lparr>gate_time_ns := 40\<rparr>))
       = [0.937 * (1 - 0.03 * 0.5), 0.990 * (1 - 0.01 * 0.5), 0.931 * (1 - 0.04 * 0.5)]
   \<and> map amplitude_min_fidelity (estimateRobustness (iqm_garnet\<lparr>gate_time_ns := 40\<rparr>))
       = [0.965 * (1 - 0.02 * 0.5), 0.990 * (1 - 0.01 * 0.5), 0.994 * (1 - 0.005 * 0.5)]
   \<and> map detuning_robust (estimateRobustness (iqm_garnet\<lparr>gate_time_ns := 40\<rparr>))
       = [False, True, False]"
  using robustness_table [of "iqm_garnet\<lparr>gate_time_ns := 40\<rparr>"]
  by (simp add: iqm_garnet_def)

subsection \<open>The reference scenario\<close>

text \<open>
  Claim C6, as the spec states it, fails on the code. At the reference input the code's
  \<^verbatim>\<open>drag_beta\<close> is \<open>5 / (4 * pi)\<close>, above 0.39: a hundred times the \<open>3.979e-3\<close> of the
  claim. The dephasing term and the total are \<open>1.8131e-3\<close> and \<open>2.0833e-3\<close>, more than
  one unit of the last digit away from the claim's \<open>1.812e-3\<close> and \<open>2.082e-3\<close>.
\<close>

theorem iqm_garnet_budget_counterexample:
  "39 / 100 < drag_beta (computeErrorBudget iqm_garnet)
   \<and> 38 / 100 < \<bar>drag_beta (computeErrorBudget iqm_garnet) - 3.979 / 10 ^ 3\<bar>
   \<and> 1 / 10 ^ 6
       < \<bar>t2_contribution (decoherence_floor (computeErrorBudget iqm_garnet)) - 1.812 / 10 ^ 3\<bar>
   \<and> 1 / 10 ^ 6
       < \<bar>total_floor (decoherence_floor (computeErrorBudget iqm_garnet)) - 2.082 / 10 ^ 3\<bar>"
  using drag_beta_bounds by (simp add: iqm_garnet_floor iqm_garnet_drag_beta)

text \<open>
  Claim C6, amended. For anharmonicity \<open>-200\<close> MHz, \<open>T1 = 37\<close> us, \<open>T2 = 9.6\<close> us and a
  gate of 20 ns, \<^verbatim>\<open>computeErrorBudget\<close> returns \<open>t1_contribution = 20 / (2 * 37000)\<close>,
  about \<open>2.703e-4\<close>; \<open>t2_contribution = 20 / 9600 - 20 / (2 * 37000)\<close>, about \<open>1.813e-3\<close>;
  \<open>total = 20 / 9600\<close>, about \<open>2.083e-3\<close>; a DRAG coherent error of \<open>4.9e-4\<close>, which is
  below half the total, so the regime is \<^verbatim>\<open>drag_sufficient\<close>; and
  \<open>drag_beta = -1 / (2 * (-200 * 2 * pi / 1000))\<close>, about \<open>3.979e-1\<close> ns. Each "about" is
  within half a unit of the last digit shown.
\<close>

theorem iqm_garnet_budget:
  "t1_contribution (decoherence_floor (computeErrorBudget iqm_garnet)) = 20 / (2 * 37000)
   \<and> \<bar>t1_contribution (decoherence_floor (computeErrorBudget iqm_garnet)) - 2.703 / 10 ^ 4\<bar>
       < 5 / 10 ^ 8
   \<and> t2_contribution (decoherence_floor (computeErrorBudget iqm_garnet))
       = 20 / 9600 - 20 / (2 * 37000)
   \<and> \<bar>t2_contribution (decoherence_floor (computeErrorBudget iqm_garnet)) - 1.813 / 10 ^ 3\<bar>
       < 5 / 10 ^ 7
   \<and> total_floor (decoherence_floor (computeErrorBudget iqm_garnet)) = 20 / 9600
   \<and> \<bar>total_floor (decoherence_floor (computeErrorBudget iqm_garnet)) - 2.083 / 10 ^ 3\<bar>
       < 5 / 10 ^ 7
   \<and> estimateDragCoherentError (gate_time_ns iqm_garnet) (alpha_mhz iqm_garnet) = 4.9 / 10 ^ 4
   \<and> 4.9 / 10 ^ 4 < 0.5 * total_floor (decoherence_floor (computeErrorBudget iqm_garnet))
   \<and> regime (computeErrorBudget iqm_garnet) = drag_sufficient
   \<and> drag_beta (computeErrorBudget iqm_garnet) = - 1 / (2 * (- 200 * 2 * pi / 1000))
   \<and> \<bar>drag_beta (computeErrorBudget iqm_garnet) - 3.979 / 10\<bar> < 5 / 10 ^ 5"
proof -
  have r: "regime (computeErrorBudget iqm_garnet) = drag_sufficient"
    by (simp add: computeErrorBudget_def Let_def iqm_garnet_def
          computeDecoherenceFloor_def estimateDragCoherentError_def)
  have b: "\<bar>5 / (4 * pi) - 3.979 / 10\<bar> < 5 / 10 ^ 5"
    using drag_beta_bounds by (simp add: abs_less_iff)
  show ?thesis
    using r b by (simp add: iqm_garnet_floor iqm_garnet_drag_beta iqm_garnet_drag_coherent)
qed

subsection \<open>Validation in the tool layer and its absence at the REST endpoint\<close>

text \<open>
  Claim C8, as the spec states it, fails on the code: the refusal does not say which
  field failed. A gate time of 0 (with valid \<open>T1\<close>, \<open>T2\<close>) and a \<open>T2\<close> of 0 (with valid
  gate time and \<open>T1\<close>) get the same answer, the fixed text
  \<^verbatim>\<open>Error: All time parameters must be positive.\<close>
\<close>

theorem tool_error_names_no_field_counterexample:
  "arg_gate_time_ns zero_gate_args \<le> 0 \<and> 0 < arg_t1_us zero_gate_args
     \<and> 0 < arg_t2_us zero_gate_args
   \<and> 0 < arg_gate_time_ns zero_t2_args \<and> 0 < arg_t1_us zero_t2_args
     \<and> arg_t2_us zero_t2_args \<le> 0
   \<and> fst (executeTool ''compute_error_budget'' zero_gate_args initialState [])
       = [Lit ''Error: All time parameters must be positive.'']
   \<and> fst (executeTool ''compute_error_budget'' zero_t2_args initialState [])
       = fst (executeTool ''compute_error_budget'' zero_gate_args initialState [])"
  by (simp add: executeTool_def Let_def args_params_def zero_gate_args_def zero_t2_args_def
        time_parameters_error_def)

text \<open>
  Claim C8, amended. Whenever the gate time, \<open>T1\<close> or \<open>T2\<close> is at most 0, the
  \<^verbatim>\<open>compute_error_budget\<close> case of \<^verbatim>\<open>executeTool\<close> refuses to compute: it leaves the
  state as it is and returns only a validation message, which is the \<open>T2 > 2 * T1\<close>
  warning when \<open>T2\<close> exceeds \<open>2 * T1\<close>, else the positive-anharmonicity warning when the
  anharmonicity is positive, else the fixed text "Error: All time parameters must be
  positive.", which names no field. The answer is not the text of any budget, so no
  budget field reaches the caller.
\<close>

theorem tool_refuses_nonpositive_times:
  assumes "arg_gate_time_ns args \<le> 0 \<or> arg_t1_us args \<le> 0 \<or> arg_t2_us args \<le> 0"
  shows "executeTool ''compute_error_budget'' args state now
           = (if 2 * arg_t1_us args < arg_t2_us args then t2_exceeds_warning (args_params args)
              else if 0 < arg_alpha_mhz args then positive_alpha_warning (args_params args)
              else time_parameters_error,
              state)
       \<and> render str ex fx (fst (executeTool ''compute_error_budget'' args state now))
           \<noteq> render str ex fx (formatErrorBudget budget)"
  using assms
  by (auto simp add: executeTool_def Let_def args_params_def validation_not_budget)

theorem tool_refuses_nonpositive_times_witness:
  "arg_gate_time_ns zero_gate_args \<le> 0
   \<and> executeTool ''compute_error_budget'' zero_gate_args initialState []
       = ([Lit ''Error: All time parameters must be positive.''], initialState)
   \<and> render (\<lambda>x. []) (\<lambda>x d. []) (\<lambda>x d. [])
         (fst (executeTool ''compute_error_budget'' zero_gate_args initialState []))
       \<noteq> render (\<lambda>x. []) (\<lambda>x d. []) (\<lambda>x d. [])
           (formatErrorBudget (computeErrorBudget iqm_garnet))"
  using tool_refuses_nonpositive_times [of zero_gate_args initialState "[]"
      "\<lambda>x. []" "\<lambda>x d. []" "\<lambda>x d. []" "computeErrorBudget iqm_garnet"]
  by (auto simp add: zero_gate_args_def time_parameters_error_def)

text \<open>
  Claim C10. \<^verbatim>\<open>computeErrorBudget\<close> validates nothing: for every input with nonzero
  divisors the \<^verbatim>\<open>/api/error-budget\<close> endpoint answers 200 with the budget of the body
  as it came, whose recommendation is one of the three regime texts and whose dephasing
  term is the clamped difference (0 when \<open>T2 > 2 * T1\<close> for positive times); the checks
  are those of \<^verbatim>\<open>executeTool\<close> alone, which answers an input that fails one of them
  with the validation message and formats the budget only when all three pass.
\<close>

theorem rest_endpoint_skips_validation:
  assumes "gate_time_ns p \<noteq> 0" and "t1_us p \<noteq> 0" and "t2_us p \<noteq> 0" and "alpha_mhz p \<noteq> 0"
    and "args_params args = p"
  shows "fetch ''/api/error-budget'' ''POST'' (Inr p) agentResponse
           = \<lparr>status = 200, headers = [(''Content-Type'', ''application/json'')],
              body = Json_budget (computeErrorBudget p)\<rparr>
       \<and> params (computeErrorBudget p) = p
       \<and> t2_contribution (decoherence_floor (computeErrorBudget p))
           = max 0 (gate_time_ns p / (t2_us p * 1000) - gate_time_ns p / (2 * (t1_us p * 1000)))
       \<and> (recommendation (computeErrorBudget p) = recommendation_short_gate (gate_time_ns p)
          \<or> recommendation (computeErrorBudget p)
              = recommendation_drag_sufficient
                  (estimateDragCoherentError (gate_time_ns p) (alpha_mhz p))
                  (decoherence_floor (computeErrorBudget p))
                  (drag (estimated_infidelity (computeErrorBudget p)))
                  (grape (estimated_infidelity (computeErrorBudget p)))
                  (t2_us p)
          \<or> recommendation (computeErrorBudget p)
              = recommendation_grape_needed
                  (estimateDragCoherentError (gate_time_ns p) (alpha_mhz p))
                  (decoherence_floor (computeErrorBudget p)))
       \<and> fst (executeTool ''compute_error_budget'' args state now)
           = (if 2 * t1_us p < t2_us p then t2_exceeds_warning p
              else if 0 < alpha_mhz p then positive_alpha_warning p
              else if gate_time_ns p \<le> 0 \<or> t1_us p \<le> 0 \<or> t2_us p \<le> 0
                then time_parameters_error
              else formatErrorBudget (computeErrorBudget p))"
proof -
  have f: "fetch ''/api/error-budget'' ''POST'' (Inr p) agentResponse
           = \<lparr>status = 200, headers = [(''Content-Type'', ''application/json'')],
              body = Json_budget (computeErrorBudget p)\<rparr>"
    by (simp add: fetch_def)
  have t: "t2_contribution (decoherence_floor (computeErrorBudget p))
           = max 0 (gate_time_ns p / (t2_us p * 1000) - gate_time_ns p / (2 * (t1_us p * 1000)))"
    by (simp add: budget_fields computeDecoherenceFloor_def Let_def)
  have r: "recommendation (computeErrorBudget p) = recommendation_short_gate (gate_time_ns p)
          \<or> recommendation (computeErrorBudget p)
              = recommendation_drag_sufficient
                  (estimateDragCoherentError (gate_time_ns p) (alpha_mhz p))
                  (decoherence_floor (computeErrorBudget p))
                  (drag (estimated_infidelity (computeErrorBudget p)))
                  (grape (estimated_infidelity (computeErrorBudget p)))
                  (t2_us p)
          \<or> recommendation (computeErrorBudget p)
              = recommendation_grape_needed
                  (estimateDragCoherentError (gate_time_ns p) (alpha_mhz p))
                  (decoherence_floor (computeErrorBudget p))"
    by (simp add: computeErrorBudget_def Let_def)
  have e: "fst (executeTool ''compute_error_budget'' args state now)
           = (if 2 * t1_us p < t2_us p then t2_exceeds_warning p
              else if 0 < alpha_mhz p then positive_alpha_warning p
              else if gate_time_ns p \<le> 0 \<or> t1_us p \<le> 0 \<or> t2_us p \<le> 0
                then time_parameters_error
              else formatErrorBudget (computeErrorBudget p))"
    using assms(5) by (auto simp add: executeTool_def Let_def)
  show ?thesis using f t r e by (simp add: budget_fields)
qed

theorem rest_endpoint_skips_validation_witness:
  "gate_time_ns (args_params unphysical_args) \<noteq> 0
   \<and> 2 * t1_us (args_params unphysical_args) < t2_us (args_params unphysical_args)
   \<and> 0 < alpha_mhz (args_params unphysical_args)
   \<and> fetch ''/api/error-budget'' ''POST'' (Inr (args_params unphysical_args)) None
       = \<lparr>status = 200, headers = [(''Content-Type'', ''application/json'')],
          body = Json_budget (computeErrorBudget (args_params unphysical_args))\<rparr>
   \<and> t2_contribution (decoherence_floor (computeErrorBudget (args_params unphysical_args))) = 0
   \<and> fst (executeTool ''compute_error_budget'' unphysical_args initialState [])
       = t2_exceeds_warning (args_params unphysical_args)"
  using rest_endpoint_skips_validation [of "args_params unphysical_args" unphysical_args
      None initialState "[]"]
  by (simp add: unphysical_args_def args_params_def)

end
